theory Spec2Isabelle
  imports Main "HOL-Library.AList"
begin

section \<open>Data model\<close>

text \<open>
  The repository is a Python client for the zKillboard API in two classes:
  \<^verbatim>\<open>ZKillboardClient\<close> (file zkillboard_client.py), which sends one request and retries it,
  and \<^verbatim>\<open>ZKillboardInterface\<close> (file zkillboard_interface.py), which keeps one cache file per
  url and decides whether to answer from it.

  The embedding is shallow. Each method is a HOL function of the object's fields and of the
  two things outside the program that it reads and writes: the cache files, a map from file
  name to the document stored there, and the network, a list holding the outcome of each
  successive \<^verbatim>\<open>requests.get\<close> / \<^verbatim>\<open>requests.post\<close> call. What a call sends and how long it
  sleeps is returned as a list of events. Exceptions are values.
\<close>

subsection \<open>JSON values, responses, exceptions\<close>

text \<open>
  A decoded JSON body. Python's \<^verbatim>\<open>None\<close> is \<open>JNull\<close>; floating point numbers are left out.
\<close>

datatype json =
    JNull
  | JBool bool
  | JInt int
  | JStr string
  | JArr "json list"
  | JObj "(string \<times> json) list"

text \<open>
  A \<^verbatim>\<open>requests.Response\<close>: the status code, the headers under the names the code looks up
  (\<^verbatim>\<open>Date\<close>, \<^verbatim>\<open>Expires\<close>, \<^verbatim>\<open>Last-Modified\<close>), and the result of \<^verbatim>\<open>res.json()\<close>, which is
  \<open>None\<close> when the body does not decode (\<^verbatim>\<open>res.json()\<close> raises then).
\<close>

record response =
  status_code :: int
  resp_headers :: "string \<rightharpoonup> string"
  resp_json :: "json option"

text \<open>
  The exceptions that reach the code. \<open>ConnectionError\<close> is \<^verbatim>\<open>requests.ConnectionError\<close>
  (a connect timeout included), \<open>Timeout\<close> is a \<^verbatim>\<open>requests.Timeout\<close> that is not a
  connection error (a read timeout), \<open>HTTPError c\<close> is \<^verbatim>\<open>requests.HTTPError\<close> whose response
  has status code \<open>c\<close>, \<open>JSONDecodeError\<close> is raised by \<^verbatim>\<open>res.json()\<close>, \<open>TypeError\<close> by
  subscripting \<^verbatim>\<open>None\<close>, and \<open>OtherError\<close> stands for any other exception of a request.
\<close>

datatype error =
    ConnectionError
  | Timeout
  | HTTPError int
  | JSONDecodeError
  | TypeError
  | OtherError

text \<open>What one call of \<^verbatim>\<open>requests.get\<close> or \<^verbatim>\<open>requests.post\<close> does.\<close>

datatype net_outcome =
    Resp response
  | ConnFail
  | ReadTimeout
  | OtherFail

text \<open>
  What the program does to the outside: a GET of a uri with its headers, a POST of a uri
  with its body and headers, and \<^verbatim>\<open>time.sleep(n)\<close>.
\<close>

datatype event =
    EvGet string "(string \<times> string) list"
  | EvPost string string "(string \<times> string) list"
  | EvSleep nat

subsection \<open>The client object\<close>

text \<open>
  The fields of \<^verbatim>\<open>ZKillboardClient\<close> (zkillboard_client.py, lines 36-55). \<open>session\<close> tells
  whether a \<^verbatim>\<open>requests.Session\<close> is held; the TLS adapter is left out. The time stamp type
  \<open>'dt\<close> is what \<^verbatim>\<open>dateutil.parser.parse\<close> returns.
\<close>

record 'dt client =
  debug :: bool
  logger :: bool
  user_agent :: "string option"
  client_last_modified :: "'dt option"
  keep_alive :: bool
  session :: bool

text \<open>
  \<^verbatim>\<open>self.__attempts_to_reconnect: int = 5\<close> (line 43): set by the constructor, private, and
  assigned nowhere else.
\<close>

definition attempts_to_reconnect :: nat where
  "attempts_to_reconnect = 5"

definition ZKillboardClient ::
  "bool \<Rightarrow> bool \<Rightarrow> bool \<Rightarrow> string option \<Rightarrow> 'dt client" where
  "ZKillboardClient keep_alive' debug' logger' user_agent' =
     \<lparr>debug = debug', logger = logger', user_agent = user_agent',
      client_last_modified = None, keep_alive = keep_alive', session = False\<rparr>"

text \<open>\<^verbatim>\<open>__keep_connection\<close> (lines 122-128): the session is made on first use.\<close>

definition keep_connection :: "'dt client \<Rightarrow> 'dt client" where
  "keep_connection self = (if \<not> session self then self\<lparr>session := True\<rparr> else self)"

subsection \<open>The locals of one request\<close>

text \<open>
  The local variables of \<^verbatim>\<open>send_zkb_request_http\<close> that live across its loops
  (lines 131-146).
\<close>

record req_state =
  headers :: "(string \<times> string) list"
  http_connection_times :: nat
  proxy_error_times :: nat
  throttle_error_times :: nat
  requests_get_times :: nat

text \<open>The result of a request: the response returned, or the exception raised.\<close>

datatype t_result =
    Returned response
  | Raised error

text \<open>One pass through a loop body ends in \<^verbatim>\<open>continue\<close> or leaves the loop.\<close>

datatype ('s, 'r) step =
    Continue 's
  | Break 'r

section \<open>Transport: \<^verbatim>\<open>ZKillboardClient.send_zkb_request_http\<close>\<close>

text \<open>
  Lines 131-135: the request headers. \<^verbatim>\<open>if self.__user_agent\<close> is false for \<^verbatim>\<open>None\<close> and for
  the empty string.
\<close>

definition build_headers ::
  "'dt client \<Rightarrow> string option \<Rightarrow> string option \<Rightarrow> (string \<times> string) list" where
  "build_headers self last_modified body =
     (case last_modified of
        Some lm \<Rightarrow> (if body = None then [(''If-Modified-Since'', lm)] else [])
      | None \<Rightarrow> []) @
     (case user_agent self of
        Some ua \<Rightarrow> (if ua \<noteq> [] then [(''User-Agent'', ua)] else [])
      | None \<Rightarrow> [])"

text \<open>
  Lines 193-227, entered with a response \<open>res\<close>. The time stamp is stored inside
  \<^verbatim>\<open>if self.__logger\<close> (lines 194-202). \<open>parsedate\<close> is \<^verbatim>\<open>dateutil.parser.parse\<close>, a parameter
  of the model; header values are HTTP dates, which it accepts.
  The printing itself is left out, apart from \<^verbatim>\<open>print(res.json())\<close> (lines 210, 220, 244),
  which raises when the body does not decode; that exception reaches the bare
  \<^verbatim>\<open>except\<close> (line 246) and is raised again. \<^verbatim>\<open>res.raise_for_status()\<close> raises \<open>HTTPError\<close>
  for a status from 400 to 599; the handler at line 241 prints \<^verbatim>\<open>res.json()\<close> before it
  raises the error again, so a body that does not decode replaces the \<open>HTTPError\<close> by a
  \<open>JSONDecodeError\<close>.
\<close>

definition after_response ::
  "(string \<Rightarrow> 'dt) \<Rightarrow> 'dt client \<Rightarrow> req_state \<Rightarrow> event list \<Rightarrow> response \<Rightarrow>
   ('dt client \<times> req_state \<times> event list, t_result \<times> 'dt client \<times> event list) step" where
  "after_response parsedate self k tr res =
     (let self =
        (if logger self then
           (case resp_headers res ''Last-Modified'' of
              Some url_time \<Rightarrow> self\<lparr>client_last_modified := Some (parsedate url_time)\<rparr>
            | None \<Rightarrow> self)
         else self)
      in
      if status_code res \<in> {502, 504} \<and> proxy_error_times k < attempts_to_reconnect then
        Continue (self, k\<lparr>proxy_error_times := proxy_error_times k + 1\<rparr>, tr)
      else if status_code res \<in> {503} \<and> proxy_error_times k < attempts_to_reconnect then
        (case resp_json res of
           None \<Rightarrow> Break (Raised JSONDecodeError, self, tr)
         | Some _ \<Rightarrow>
             Continue (self, k\<lparr>proxy_error_times := proxy_error_times k + 1\<rparr>,
                       tr @ [EvSleep (2 * (proxy_error_times k + 1))]))
      else if status_code res \<in> {520} \<and> throttle_error_times k < attempts_to_reconnect then
        (case resp_json res of
           None \<Rightarrow> Break (Raised JSONDecodeError, self, tr)
         | Some _ \<Rightarrow>
             Continue (self, k\<lparr>throttle_error_times := throttle_error_times k + 1\<rparr>,
                       tr @ [EvSleep 5]))
      else if 400 \<le> status_code res \<and> status_code res < 600 then
        (case resp_json res of
           None \<Rightarrow> Break (Raised JSONDecodeError, self, tr)
         | Some _ \<Rightarrow> Break (Raised (HTTPError (status_code res)), self, tr))
      else Break (Returned res, self, tr))"

text \<open>
  One call of \<^verbatim>\<open>requests.get\<close> (lines 148-174) or \<^verbatim>\<open>requests.post\<close> (lines 175-192) with
  outcome \<open>x\<close>, and what follows it.

  GET: \<^verbatim>\<open>except (requests.ConnectionError, requests.Timeout): continue\<close> (lines 162-163)
  tries again at once, whatever the counters; any other exception leaves through the bare
  \<^verbatim>\<open>except\<close>.

  POST: a \<open>ConnectionError\<close> reaches the handler at line 228, which counts it in
  \<^verbatim>\<open>http_connection_times\<close>, sleeps one second and starts the outer loop again (where lines
  145-146 set the two status counters to 0), or raises it when the count is used up. Any
  other exception leaves through the bare \<^verbatim>\<open>except\<close>.
\<close>

definition attempt ::
  "(string \<Rightarrow> 'dt) \<Rightarrow> string \<Rightarrow> string option \<Rightarrow> 'dt client \<Rightarrow> req_state \<Rightarrow> event list \<Rightarrow>
   net_outcome \<Rightarrow>
   ('dt client \<times> req_state \<times> event list, t_result \<times> 'dt client \<times> event list) step" where
  "attempt parsedate uri body self k tr x =
     (case body of
        None \<Rightarrow>
          (let k = k\<lparr>requests_get_times := requests_get_times k + 1\<rparr>;
               self = (if keep_alive self then keep_connection self else self);
               tr = tr @ [EvGet uri (headers k)]
           in case x of
                ConnFail \<Rightarrow> Continue (self, k, tr)
              | ReadTimeout \<Rightarrow> Continue (self, k, tr)
              | OtherFail \<Rightarrow> Break (Raised OtherError, self, tr)
              | Resp res \<Rightarrow> after_response parsedate self k tr res)
      | Some b \<Rightarrow>
          (let k = k\<lparr>headers :=
                       AList.update ''Content-Type'' ''application/json'' (headers k)\<rparr>;
               self = (if keep_alive self then keep_connection self else self);
               tr = tr @ [EvPost uri b (headers k)]
           in case x of
                ConnFail \<Rightarrow>
                  (if http_connection_times k < attempts_to_reconnect then
                     Continue (self,
                               k\<lparr>http_connection_times := http_connection_times k + 1,
                                 proxy_error_times := 0, throttle_error_times := 0\<rparr>,
                               tr @ [EvSleep 1])
                   else Break (Raised ConnectionError, self, tr))
              | ReadTimeout \<Rightarrow> Break (Raised Timeout, self, tr)
              | OtherFail \<Rightarrow> Break (Raised OtherError, self, tr)
              | Resp res \<Rightarrow> after_response parsedate self k tr res))"

text \<open>
  The loops of lines 143-249. Every pass makes one call to the network, so the function
  consumes one outcome per pass. \<open>None\<close>: the outcomes given are used up and the request
  is still being retried; it has not returned.
\<close>

fun request_loop ::
  "(string \<Rightarrow> 'dt) \<Rightarrow> string \<Rightarrow> string option \<Rightarrow> 'dt client \<Rightarrow> req_state \<Rightarrow> event list \<Rightarrow>
   net_outcome list \<Rightarrow> (t_result \<times> 'dt client \<times> event list \<times> net_outcome list) option" where
  "request_loop parsedate uri body self k tr [] = None"
| "request_loop parsedate uri body self k tr (x # net) =
     (case attempt parsedate uri body self k tr x of
        Continue (self', k', tr') \<Rightarrow> request_loop parsedate uri body self' k' tr' net
      | Break (r, self', tr') \<Rightarrow> Some (r, self', tr', net))"

definition send_zkb_request_http ::
  "(string \<Rightarrow> 'dt) \<Rightarrow> 'dt client \<Rightarrow> string \<Rightarrow> string option \<Rightarrow> string option \<Rightarrow>
   net_outcome list \<Rightarrow> (t_result \<times> 'dt client \<times> event list \<times> net_outcome list) option" where
  "send_zkb_request_http parsedate self uri last_modified body net =
     request_loop parsedate uri body
       (self\<lparr>client_last_modified := None\<rparr>)
       \<lparr>headers = build_headers self last_modified body,
        http_connection_times = 0, proxy_error_times = 0,
        throttle_error_times = 0, requests_get_times = 0\<rparr>
       [] net"

section \<open>Cache coordinator: \<^verbatim>\<open>ZKillboardInterface\<close>\<close>

subsection \<open>Cache files\<close>

text \<open>
  A cache file holds what \<^verbatim>\<open>__dump_cache_into_file\<close> writes (lines 103-116), the only writer:
  a dictionary with the keys \<^verbatim>\<open>headers\<close> and \<^verbatim>\<open>json\<close>. The headers written are either those
  of \<^verbatim>\<open>__get_cached_headers\<close> (keys \<^verbatim>\<open>date\<close>, \<^verbatim>\<open>expires\<close>, \<^verbatim>\<open>last-modified\<close>, each optional) or
  \<^verbatim>\<open>{"Http-Error": code}\<close>. A field is \<open>None\<close> when its key is not in the dictionary.
  Both top-level keys are always written, so the tests \<^verbatim>\<open>"json" in cached_data\<close> (line 160)
  and \<^verbatim>\<open>"headers" in cached_data\<close> (lines 186-187) hold for every document.
\<close>

record cached_headers =
  hdr_date :: "string option"
  hdr_expires :: "string option"
  hdr_last_modified :: "string option"
  hdr_Http_Error :: "int option"

record cached_doc =
  c_headers :: cached_headers
  c_json :: json

type_synonym files = "string \<rightharpoonup> cached_doc"

subsection \<open>The interface object\<close>

record 'dt interface =
  server_url :: string
  offline_mode :: bool
  cache_dir :: string
  is_last_data_updated :: bool
  last_modified :: "'dt option"
  client :: "'dt client"

text \<open>\<^verbatim>\<open>s[-1:] == '/'\<close> then \<^verbatim>\<open>s[:-1]\<close> (lines 47-48 and 81-82).\<close>

definition strip_slash :: "string \<Rightarrow> string" where
  "strip_slash s = (if s \<noteq> [] \<and> last s = CHR ''/'' then butlast s else s)"

text \<open>\<^verbatim>\<open>s.replace(c, r)\<close> for a one-character \<open>c\<close>.\<close>

definition replace :: "char \<Rightarrow> string \<Rightarrow> string \<Rightarrow> string" where
  "replace c r s = concat (map (\<lambda>x. if x = c then r else [x]) s)"

text \<open>The constructor with \<^verbatim>\<open>setup_cache_dir\<close> (lines 15-24 and 44-50).\<close>

definition ZKillboardInterface :: "'dt client \<Rightarrow> string \<Rightarrow> bool \<Rightarrow> 'dt interface" where
  "ZKillboardInterface client' cache_dir' offline_mode' =
     \<lparr>server_url = ''https://zkillboard.com/api/'', offline_mode = offline_mode',
      cache_dir = strip_slash cache_dir', is_last_data_updated = False,
      last_modified = None, client = client'\<rparr>"

text \<open>\<^verbatim>\<open>__get_f_name\<close> (lines 73-88).\<close>

definition get_f_name :: "'dt interface \<Rightarrow> string \<Rightarrow> string" where
  "get_f_name self url =
     (let url = strip_slash url;
          url = replace CHR ''/'' ''_'' url;
          url = replace CHR ''='' ''-'' url;
          url = replace CHR ''?'' '''' url;
          url = replace CHR ''&'' ''.'' url
      in cache_dir self @ ''/.cache_'' @ url @ ''.json'')"

text \<open>\<^verbatim>\<open>__get_cached_headers\<close> (lines 90-101).\<close>

definition get_cached_headers :: "response \<Rightarrow> cached_headers" where
  "get_cached_headers data =
     \<lparr>hdr_date = resp_headers data ''Date'',
      hdr_expires = resp_headers data ''Expires'',
      hdr_last_modified = resp_headers data ''Last-Modified'',
      hdr_Http_Error = None\<rparr>"

text \<open>\<^verbatim>\<open>{"Http-Error": code}\<close> (lines 207 and 211).\<close>

definition http_error_headers :: "int \<Rightarrow> cached_headers" where
  "http_error_headers code =
     \<lparr>hdr_date = None, hdr_expires = None, hdr_last_modified = None,
      hdr_Http_Error = Some code\<rparr>"

text \<open>\<^verbatim>\<open>__dump_cache_into_file\<close> (lines 103-116) and \<^verbatim>\<open>__take_cache_from_file\<close> (lines 118-130).\<close>

definition dump_cache_into_file ::
  "'dt interface \<Rightarrow> files \<Rightarrow> string \<Rightarrow> cached_headers \<Rightarrow> json \<Rightarrow> files" where
  "dump_cache_into_file self fs url data_headers data_json =
     fs(get_f_name self url \<mapsto> \<lparr>c_headers = data_headers, c_json = data_json\<rparr>)"

definition take_cache_from_file :: "'dt interface \<Rightarrow> files \<Rightarrow> string \<Rightarrow> cached_doc option" where
  "take_cache_from_file self fs url = fs (get_f_name self url)"

subsection \<open>\<^verbatim>\<open>get_zkb_data\<close>\<close>

text \<open>What a call gives its caller: a value (\<^verbatim>\<open>None\<close> is \<open>JNull\<close>) or an exception.\<close>

datatype fetch_result =
    Return json
  | Raise error

text \<open>
  Lines 193-202: the request returned \<open>data\<close>. With status 304 line 194 subscripts
  \<^verbatim>\<open>cached_data\<close>, which raises \<open>TypeError\<close> when there is no cache file. Otherwise
  \<^verbatim>\<open>data.json()\<close> is evaluated before the file is written, so a body that does not decode
  raises before any write.
\<close>

definition on_returned ::
  "(string \<Rightarrow> 'dt) \<Rightarrow> 'dt interface \<Rightarrow> files \<Rightarrow> string \<Rightarrow> cached_doc option \<Rightarrow> response \<Rightarrow>
   fetch_result \<times> 'dt interface \<times> files" where
  "on_returned parsedate self fs url cached_data data =
     (if status_code data = 304 then
        (case cached_data of
           None \<Rightarrow> (Raise TypeError, self, fs)
         | Some d \<Rightarrow>
             (case hdr_last_modified (c_headers d) of
                None \<Rightarrow> (Return (c_json d), self, fs)
              | Some url_time \<Rightarrow>
                  (Return (c_json d), self\<lparr>last_modified := Some (parsedate url_time)\<rparr>, fs)))
      else
        (case resp_json data of
           None \<Rightarrow> (Raise JSONDecodeError, self, fs)
         | Some j \<Rightarrow>
             (Return j,
              self\<lparr>is_last_data_updated := True,
                   last_modified := client_last_modified (client self)\<rparr>,
              dump_cache_into_file self fs url (get_cached_headers data) j)))"

text \<open>
  Lines 203-214: the request raised \<open>e\<close>. The handler for \<open>HTTPError\<close> writes the file and
  raises again for 403 and for 404; for any other status code neither branch is taken,
  the handler ends, and so does the function: it returns \<^verbatim>\<open>None\<close>. Every other exception
  is raised again by the bare \<^verbatim>\<open>except\<close>.
\<close>

definition on_raised ::
  "'dt interface \<Rightarrow> files \<Rightarrow> string \<Rightarrow> error \<Rightarrow> fetch_result \<times> 'dt interface \<times> files" where
  "on_raised self fs url e =
     (case e of
        HTTPError status_code' \<Rightarrow>
          (if status_code' = 403 then
             (Raise e, self, dump_cache_into_file self fs url (http_error_headers 403) JNull)
           else if status_code' = 404 then
             (Raise e, self, dump_cache_into_file self fs url (http_error_headers 404) JNull)
           else (Return JNull, self, fs))
      | _ \<Rightarrow> (Raise e, self, fs))"

text \<open>
  Lines 168-177, offline mode: nothing is sent. The error stored in the file is raised as an
  \<open>HTTPError\<close> made from the stored code (\<^verbatim>\<open>__esi_raise_for_status\<close>, lines 141-147).
\<close>

definition offline_path ::
  "'dt interface \<Rightarrow> files \<Rightarrow> net_outcome list \<Rightarrow> cached_doc option \<Rightarrow>
   (fetch_result \<times> 'dt interface \<times> files \<times> event list \<times> net_outcome list) option" where
  "offline_path self fs net cached_data =
     (case cached_data of
        None \<Rightarrow> Some (Return JNull, self, fs, [], net)
      | Some d \<Rightarrow>
          (case hdr_Http_Error (c_headers d) of
             Some code \<Rightarrow> Some (Raise (HTTPError code), self, fs, [], net)
           | None \<Rightarrow> Some (Return (c_json d), self, fs, [], net)))"

text \<open>
  Lines 178-214, online mode: the request is sent with the \<^verbatim>\<open>last-modified\<close> value of the
  cache file, if there is one. \<open>None\<close>: the request has not returned on the outcomes given.
\<close>

definition online_path ::
  "(string \<Rightarrow> 'dt) \<Rightarrow> 'dt interface \<Rightarrow> files \<Rightarrow> net_outcome list \<Rightarrow> string \<Rightarrow>
   string option \<Rightarrow> cached_doc option \<Rightarrow>
   (fetch_result \<times> 'dt interface \<times> files \<times> event list \<times> net_outcome list) option" where
  "online_path parsedate self fs net url body cached_data =
     (let data_path = server_url self @ url;
          last_modified' =
            (case cached_data of
               Some d \<Rightarrow> hdr_last_modified (c_headers d)
             | None \<Rightarrow> None)
      in case send_zkb_request_http parsedate (client self) data_path last_modified' body net of
           None \<Rightarrow> None
         | Some (r, client', tr, net') \<Rightarrow>
             (let self = self\<lparr>client := client'\<rparr>
              in case r of
                   Returned data \<Rightarrow>
                     (case on_returned parsedate self fs url cached_data data of
                        (res, self', fs') \<Rightarrow> Some (res, self', fs', tr, net'))
                 | Raised e \<Rightarrow>
                     (case on_raised self fs url e of
                        (res, self', fs') \<Rightarrow> Some (res, self', fs', tr, net'))))"

text \<open>
  Lines 160-167: in online mode with \<^verbatim>\<open>fully_trust_cache\<close>, a cache file without
  \<^verbatim>\<open>Http-Error\<close> in its headers is answered from at once.
\<close>

definition trusts_cache :: "'dt interface \<Rightarrow> bool \<Rightarrow> cached_doc option \<Rightarrow> bool" where
  "trusts_cache self fully_trust_cache cached_data =
     (\<not> offline_mode self \<and> fully_trust_cache \<and>
      (case cached_data of
         None \<Rightarrow> False
       | Some d \<Rightarrow> hdr_Http_Error (c_headers d) = None))"

text \<open>
  \<^verbatim>\<open>get_zkb_data\<close> (lines 149-214). The result is \<open>None\<close> when the request has not returned
  on the outcomes given; otherwise it holds what the caller gets, the object, the files,
  the events and the outcomes left.
\<close>

definition get_zkb_data ::
  "(string \<Rightarrow> 'dt) \<Rightarrow> 'dt interface \<Rightarrow> files \<Rightarrow> net_outcome list \<Rightarrow>
   string \<Rightarrow> string option \<Rightarrow> bool \<Rightarrow>
   (fetch_result \<times> 'dt interface \<times> files \<times> event list \<times> net_outcome list) option" where
  "get_zkb_data parsedate self fs net url body fully_trust_cache =
     (let cached_data = take_cache_from_file self fs url;
          self = self\<lparr>is_last_data_updated := False, last_modified := None\<rparr>
      in
      case (if trusts_cache self fully_trust_cache cached_data then cached_data else None) of
        Some d \<Rightarrow>
          (case hdr_last_modified (c_headers d) of
             None \<Rightarrow> Some (Return (c_json d), self, fs, [], net)
           | Some url_time \<Rightarrow>
               Some (Return (c_json d),
                     self\<lparr>last_modified := Some (parsedate url_time)\<rparr>, fs, [], net))
      | None \<Rightarrow>
          (if offline_mode self then offline_path self fs net cached_data
           else online_path parsedate self fs net url body cached_data))"

section \<open>Notions used to state the results\<close>

text \<open>
  The event of sending the request once, from the headers held before the call: a POST
  adds the content type to them first (line 176).
\<close>

definition request_event :: "string \<Rightarrow> string option \<Rightarrow> (string \<times> string) list \<Rightarrow> event" where
  "request_event uri body hs =
     (case body of
        None \<Rightarrow> EvGet uri hs
      | Some b \<Rightarrow> EvPost uri b (AList.update ''Content-Type'' ''application/json'' hs))"

text \<open>
  \<open>n\<close> requests, each followed by a sleep of twice its number, the numbers running from
  \<open>p + 1\<close>.
\<close>

definition backoff_trace :: "event \<Rightarrow> nat \<Rightarrow> nat \<Rightarrow> event list" where
  "backoff_trace req p n = concat (map (\<lambda>i. [req, EvSleep (2 * i)]) [p + 1 ..< p + 1 + n])"

text \<open>
  Where the loops of lines 143-249 stand after the outcomes \<open>pre\<close>, when each of them ended
  in \<^verbatim>\<open>continue\<close>: the client, the locals and the events so far. \<open>None\<close> when one of them
  left the loops.
\<close>

fun state_after ::
  "(string \<Rightarrow> 'dt) \<Rightarrow> string \<Rightarrow> string option \<Rightarrow> 'dt client \<Rightarrow> req_state \<Rightarrow> event list \<Rightarrow>
   net_outcome list \<Rightarrow> ('dt client \<times> req_state \<times> event list) option" where
  "state_after parsedate uri body self k tr [] = Some (self, k, tr)"
| "state_after parsedate uri body self k tr (x # net) =
     (case attempt parsedate uri body self k tr x of
        Continue (self', k', tr') \<Rightarrow> state_after parsedate uri body self' k' tr' net
      | Break _ \<Rightarrow> None)"

subsection \<open>Example inputs\<close>

text \<open>
  Responses, a client with the constructor's defaults (no keep-alive, logger on), an online
  and an offline interface on the same cache directory, and the cache documents written
  for \<open>r200\<close> and for a 404. In the examples a time stamp is the header's text:
  \<open>parsedate\<close> is the identity.
\<close>

definition r200 :: response where
  "r200 = \<lparr>status_code = 200,
           resp_headers = [''Last-Modified'' \<mapsto> ''Wed, 21 Oct 2015 07:28:00 GMT''],
           resp_json = Some (JArr [JInt 1])\<rparr>"

definition r304 :: response where
  "r304 = \<lparr>status_code = 304, resp_headers = Map.empty, resp_json = None\<rparr>"

definition r404 :: response where
  "r404 = \<lparr>status_code = 404, resp_headers = Map.empty,
           resp_json = Some (JObj [(''error'', JStr ''not found'')])\<rparr>"

definition r500 :: response where
  "r500 = \<lparr>status_code = 500, resp_headers = Map.empty,
           resp_json = Some (JObj [(''error'', JStr ''internal'')])\<rparr>"

definition r502 :: response where
  "r502 = \<lparr>status_code = 502, resp_headers = Map.empty, resp_json = None\<rparr>"

definition r503 :: response where
  "r503 = \<lparr>status_code = 503, resp_headers = Map.empty,
           resp_json = Some (JObj [(''error'', JStr ''unavailable'')])\<rparr>"

definition client0 :: "string client" where
  "client0 = ZKillboardClient False False True None"

definition online0 :: "string interface" where
  "online0 = ZKillboardInterface client0 ''.zkb_cache/'' False"

definition offline0 :: "string interface" where
  "offline0 = ZKillboardInterface client0 ''.zkb_cache/'' True"

definition doc200 :: cached_doc where
  "doc200 = \<lparr>c_headers = \<lparr>hdr_date = None, hdr_expires = None,
                hdr_last_modified = Some ''Wed, 21 Oct 2015 07:28:00 GMT'',
                hdr_Http_Error = None\<rparr>,
              c_json = JArr [JInt 1]\<rparr>"

definition doc404 :: cached_doc where
  "doc404 = \<lparr>c_headers = http_error_headers 404, c_json = JNull\<rparr>"

section \<open>Unfolding rules\<close>

lemmas object_defs = client0_def online0_def offline0_def ZKillboardClient_def
  ZKillboardInterface_def

lemmas transport_defs = send_zkb_request_http_def attempt_def after_response_def
  build_headers_def keep_connection_def attempts_to_reconnect_def

lemmas coordinator_defs = get_zkb_data_def trusts_cache_def offline_path_def online_path_def
  on_returned_def on_raised_def take_cache_from_file_def dump_cache_into_file_def
  get_cached_headers_def http_error_headers_def

lemmas f_name_defs = get_f_name_def strip_slash_def replace_def

section \<open>Transport: retrying on status 503\<close>

lemma backoff_trace_0: "backoff_trace req p 0 = []"
  by (simp add: backoff_trace_def)

lemma backoff_trace_Suc:
  "backoff_trace req p (Suc n) = [req, EvSleep (2 * (p + 1))] @ backoff_trace req (p + 1) n"
  by (simp add: backoff_trace_def upt_conv_Cons)

lemma attempt_503:
  assumes "status_code r = 503" "resp_json r \<noteq> None"
      and "proxy_error_times k < attempts_to_reconnect"
  shows "\<exists>self' k'. attempt P uri body self k tr (Resp r) =
           Continue (self', k',
             tr @ [request_event uri body (headers k), EvSleep (2 * (proxy_error_times k + 1))])
         \<and> proxy_error_times k' = proxy_error_times k + 1
         \<and> request_event uri body (headers k') = request_event uri body (headers k)"
  using assms
  by (cases body) (auto simp: attempt_def after_response_def request_event_def Let_def)

lemma attempt_503_last:
  assumes "status_code r = 503" "\<not> proxy_error_times k < attempts_to_reconnect"
  shows "\<exists>self'. attempt P uri body self k tr (Resp r) =
           Break (Raised (case resp_json r of None \<Rightarrow> JSONDecodeError | Some _ \<Rightarrow> HTTPError 503),
                  self', tr @ [request_event uri body (headers k)])"
  using assms
  by (cases body) (auto simp: attempt_def after_response_def request_event_def Let_def split: option.splits)

lemma attempt_503_undecoded:
  assumes "status_code r = 503" "resp_json r = None"
  shows "\<exists>self'. attempt P uri body self k tr (Resp r) =
           Break (Raised JSONDecodeError, self', tr @ [request_event uri body (headers k)])"
  using assms
  by (cases body) (auto simp: attempt_def after_response_def request_event_def Let_def split: option.splits)

lemma loop_503s:
  assumes "\<forall>r\<in>set rs. status_code r = 503 \<and> resp_json r \<noteq> None"
      and "proxy_error_times k + length rs \<le> attempts_to_reconnect"
  shows "\<exists>self' k'. request_loop P uri body self k tr (map Resp rs @ net) =
           request_loop P uri body self' k'
             (tr @ backoff_trace (request_event uri body (headers k)) (proxy_error_times k) (length rs)) net
         \<and> proxy_error_times k' = proxy_error_times k + length rs
         \<and> request_event uri body (headers k') = request_event uri body (headers k)"
  using assms
proof (induction rs arbitrary: self k tr)
  case Nil
  show ?case by (auto simp: backoff_trace_0)
next
  case (Cons r rs)
  from Cons.prems have r: "status_code r = 503" "resp_json r \<noteq> None"
    and lt: "proxy_error_times k < attempts_to_reconnect" by auto
  from attempt_503 [OF r lt, of P uri body self tr]
  obtain self1 k1 where
    a: "attempt P uri body self k tr (Resp r) =
          Continue (self1, k1,
            tr @ [request_event uri body (headers k), EvSleep (2 * (proxy_error_times k + 1))])"
    and p1: "proxy_error_times k1 = proxy_error_times k + 1"
    and h1: "request_event uri body (headers k1) = request_event uri body (headers k)"
    by blast
  from Cons.prems p1 have "\<forall>r\<in>set rs. status_code r = 503 \<and> resp_json r \<noteq> None"
    "proxy_error_times k1 + length rs \<le> attempts_to_reconnect" by auto
  from Cons.IH [OF this, of self1
      "tr @ [request_event uri body (headers k), EvSleep (2 * (proxy_error_times k + 1))]"]
  obtain self2 k2 where
    b: "request_loop P uri body self1 k1
          (tr @ [request_event uri body (headers k), EvSleep (2 * (proxy_error_times k + 1))])
          (map Resp rs @ net) =
        request_loop P uri body self2 k2
          ((tr @ [request_event uri body (headers k), EvSleep (2 * (proxy_error_times k + 1))]) @
            backoff_trace (request_event uri body (headers k1)) (proxy_error_times k1) (length rs)) net"
    and p2: "proxy_error_times k2 = proxy_error_times k1 + length rs"
    and h2: "request_event uri body (headers k2) = request_event uri body (headers k1)"
    by blast
  show ?case
    apply (rule exI [of _ self2], rule exI [of _ k2])
    using a b p1 p2 h1 h2 by (simp add: backoff_trace_Suc)
qed


lemma backoff_trace_5:
  "backoff_trace req 0 5 =
     [req, EvSleep 2, req, EvSleep 4, req, EvSleep 6, req, EvSleep 8, req, EvSleep 10]"
  by (simp add: backoff_trace_def upt_rec)

lemma attempt_keeps_request_event:
  "attempt P uri body self k tr x = Continue (self', k', tr') \<Longrightarrow>
     request_event uri body (headers k') = request_event uri body (headers k)"
  by (cases body; cases x)
     (auto simp: attempt_def after_response_def request_event_def Let_def
           split: if_splits option.splits)

lemma state_after_append:
  "state_after P uri body self k tr pre = Some (self1, k1, tr1) \<Longrightarrow>
     request_loop P uri body self k tr (pre @ rest) = request_loop P uri body self1 k1 tr1 rest"
proof (induction pre arbitrary: self k tr)
  case Nil
  then show ?case by simp
next
  case (Cons x pre)
  show ?case
  proof (cases "attempt P uri body self k tr x")
    case (Continue c)
    obtain s2 k2 t2 where c: "c = (s2, k2, t2)" by (cases c)
    from Cons.prems have "state_after P uri body s2 k2 t2 pre = Some (self1, k1, tr1)"
      by (simp add: Continue c)
    from Cons.IH [OF this] show ?thesis by (simp add: Continue c)
  next
    case (Break c)
    with Cons.prems show ?thesis by simp
  qed
qed

lemma state_after_request_event:
  "state_after P uri body self k tr pre = Some (self1, k1, tr1) \<Longrightarrow>
     request_event uri body (headers k1) = request_event uri body (headers k)"
proof (induction pre arbitrary: self k tr)
  case Nil
  then show ?case by simp
next
  case (Cons x pre)
  show ?case
  proof (cases "attempt P uri body self k tr x")
    case (Continue c)
    obtain s2 k2 t2 where c: "c = (s2, k2, t2)" by (cases c)
    from Cons.prems have "state_after P uri body s2 k2 t2 pre = Some (self1, k1, tr1)"
      by (simp add: Continue c)
    from Cons.IH [OF this] attempt_keeps_request_event [OF Continue [unfolded c]]
    show ?thesis by simp
  next
    case (Break c)
    with Cons.prems show ?thesis by simp
  qed
qed

text \<open>
  Claim C6. The claim: every request that receives six 503 responses in a row makes exactly
  five retries, sleeping 2, 4, 6, 8 and 10 before them, and the sixth ends the request.
  The retries of 502 and 504 (line 203) and those of 503 (line 208) are counted in the
  same variable, \<^verbatim>\<open>proxy_error_times\<close>, and the sleep is twice its value: after two 502
  responses, a 503 is retried three times only, after sleeps of 6, 8 and 10, and the fourth
  503 ends the request; the last two of the six are never asked for.
\<close>

theorem six_503_after_502_counterexample:
  "send_zkb_request_http (\<lambda>s. s) client0 ''https://zkillboard.com/api/kills/'' None None
     ([Resp r502, Resp r502] @ replicate 6 (Resp r503)) =
   Some (Raised (HTTPError 503), client0,
     [EvGet ''https://zkillboard.com/api/kills/'' [],
      EvGet ''https://zkillboard.com/api/kills/'' [],
      EvGet ''https://zkillboard.com/api/kills/'' [], EvSleep 6,
      EvGet ''https://zkillboard.com/api/kills/'' [], EvSleep 8,
      EvGet ''https://zkillboard.com/api/kills/'' [], EvSleep 10,
      EvGet ''https://zkillboard.com/api/kills/'' []],
     [Resp r503, Resp r503])"
  by (simp add: transport_defs object_defs r502_def r503_def numeral_eq_Suc)

text \<open>
  Claim C6, as the code has it. Let the request stand, after any outcomes that were all
  retried, where \<^verbatim>\<open>proxy_error_times\<close> is 0: at its start, or with no 502, 503 or 504
  retried since lines 145-146 last ran. When six 503 responses follow whose bodies decode,
  the request makes exactly five retries, sleeping 2, 4, 6, 8 and 10 before them, and the
  sixth response ends it: \<^verbatim>\<open>raise_for_status\<close> raises \<open>HTTPError\<close> with status 503, and no
  further outcome is consumed.
\<close>

theorem six_503_backoff_from_zero:
  assumes pre: "state_after P uri body (self\<lparr>client_last_modified := None\<rparr>)
                  \<lparr>headers = build_headers self lm body, http_connection_times = 0,
                   proxy_error_times = 0, throttle_error_times = 0, requests_get_times = 0\<rparr>
                  [] pre = Some (self1, k1, tr1)"
      and zero: "proxy_error_times k1 = 0"
      and len: "length rs = 6"
      and st: "\<forall>r\<in>set rs. status_code r = 503 \<and> resp_json r \<noteq> None"
  shows "\<exists>self'.
     send_zkb_request_http P self uri lm body (pre @ map Resp rs @ net) =
       Some (Raised (HTTPError 503), self',
             tr1 @ (let req = request_event uri body (build_headers self lm body)
                    in [req, EvSleep 2, req, EvSleep 4, req, EvSleep 6, req, EvSleep 8,
                        req, EvSleep 10, req]),
             net)"
proof -
  define req where "req = request_event uri body (build_headers self lm body)"
  have send: "send_zkb_request_http P self uri lm body (pre @ n) =
      request_loop P uri body self1 k1 tr1 n" for n
    using state_after_append [OF pre, of n] by (simp add: send_zkb_request_http_def)
  have hk: "request_event uri body (headers k1) = req"
    using state_after_request_event [OF pre] by (simp add: req_def)
  have split: "rs = take 5 rs @ [rs ! 5]"
    using len by (metis Suc_eq_plus1 lessI numeral_plus_one semiring_norm(5) semiring_norm(8)
        take_Suc_conv_app_nth take_all order_refl)
  have last503: "status_code (rs ! 5) = 503" and lastjson: "resp_json (rs ! 5) \<noteq> None"
    using st len by simp_all
  have five: "\<forall>r\<in>set (take 5 rs). status_code r = 503 \<and> resp_json r \<noteq> None"
    using st by (auto dest: in_set_takeD)
  have bound: "proxy_error_times k1 + length (take 5 rs) \<le> attempts_to_reconnect"
    using len by (simp add: zero attempts_to_reconnect_def)
  from loop_503s [OF five bound, of P uri body self1 tr1 "Resp (rs ! 5) # net"]
  obtain s2 k2 where
    run: "request_loop P uri body self1 k1 tr1 (map Resp (take 5 rs) @ Resp (rs ! 5) # net) =
          request_loop P uri body s2 k2 (tr1 @ backoff_trace req 0 5) (Resp (rs ! 5) # net)"
    and p2: "proxy_error_times k2 = 5"
    and h2: "request_event uri body (headers k2) = req"
    using len by (auto simp: zero hk)
  have "\<not> proxy_error_times k2 < attempts_to_reconnect"
    by (simp add: p2 attempts_to_reconnect_def)
  from attempt_503_last [OF last503 this, of P uri body s2 "tr1 @ backoff_trace req 0 5"] lastjson
  obtain s3 where
    fin: "attempt P uri body s2 k2 (tr1 @ backoff_trace req 0 5) (Resp (rs ! 5)) =
            Break (Raised (HTTPError 503), s3, (tr1 @ backoff_trace req 0 5) @ [req])"
    by (auto simp: h2)
  have "map Resp rs @ net = map Resp (take 5 rs) @ Resp (rs ! 5) # net"
    by (subst split) simp
  then have "send_zkb_request_http P self uri lm body (pre @ map Resp rs @ net) =
      Some (Raised (HTTPError 503), s3, (tr1 @ backoff_trace req 0 5) @ [req], net)"
    by (simp add: send run fin)
  then show ?thesis
    by (simp add: backoff_trace_5 req_def Let_def)
qed

theorem six_503_backoff_from_zero_witness:
  "state_after (\<lambda>s. s) ''https://zkillboard.com/api/kills/'' None
     (client0\<lparr>client_last_modified := None\<rparr>)
     \<lparr>headers = build_headers client0 None None, http_connection_times = 0,
      proxy_error_times = 0, throttle_error_times = 0, requests_get_times = 0\<rparr>
     [] [ConnFail] =
   Some (client0,
         \<lparr>headers = [], http_connection_times = 0, proxy_error_times = 0,
          throttle_error_times = 0, requests_get_times = 1\<rparr>,
         [EvGet ''https://zkillboard.com/api/kills/'' []])
   \<and> length (replicate 6 r503) = 6 \<and> status_code r503 = 503 \<and> resp_json r503 \<noteq> None
   \<and> send_zkb_request_http (\<lambda>s. s) client0 ''https://zkillboard.com/api/kills/'' None None
       ([ConnFail] @ map Resp (replicate 6 r503) @ []) =
     Some (Raised (HTTPError 503), client0,
       [EvGet ''https://zkillboard.com/api/kills/'' [],
        EvGet ''https://zkillboard.com/api/kills/'' [], EvSleep 2,
        EvGet ''https://zkillboard.com/api/kills/'' [], EvSleep 4,
        EvGet ''https://zkillboard.com/api/kills/'' [], EvSleep 6,
        EvGet ''https://zkillboard.com/api/kills/'' [], EvSleep 8,
        EvGet ''https://zkillboard.com/api/kills/'' [], EvSleep 10,
        EvGet ''https://zkillboard.com/api/kills/'' []], [])"
proof -
  have a: "state_after (\<lambda>s. s) ''https://zkillboard.com/api/kills/'' None
     (client0\<lparr>client_last_modified := None\<rparr>)
     \<lparr>headers = build_headers client0 None None, http_connection_times = 0,
      proxy_error_times = 0, throttle_error_times = 0, requests_get_times = 0\<rparr>
     [] [ConnFail] =
   Some (client0,
         \<lparr>headers = [], http_connection_times = 0, proxy_error_times = 0,
          throttle_error_times = 0, requests_get_times = 1\<rparr>,
         [EvGet ''https://zkillboard.com/api/kills/'' []])"
    by (simp add: attempt_def build_headers_def object_defs)
  have b: "proxy_error_times \<lparr>headers = [], http_connection_times = 0, proxy_error_times = 0,
          throttle_error_times = 0, requests_get_times = 1\<rparr> = 0" by simp
  have c: "length (replicate 6 r503) = 6" by simp
  have d: "\<forall>r\<in>set (replicate 6 r503). status_code r = 503 \<and> resp_json r \<noteq> None"
    by (simp add: r503_def)
  have e: "send_zkb_request_http (\<lambda>s. s) client0 ''https://zkillboard.com/api/kills/'' None None
      ([ConnFail] @ map Resp (replicate 6 r503) @ []) = Some (res, self', tr, net') \<Longrightarrow>
      self' = client0" for res self' tr net'
    by (simp add: transport_defs object_defs r503_def numeral_eq_Suc)
  have f: "status_code r503 = 503 \<and> resp_json r503 \<noteq> None" by (simp add: r503_def)
  show ?thesis
    using six_503_backoff_from_zero [OF a b c d, of "[]"] a c e f
    by (auto simp: request_event_def build_headers_def object_defs Let_def)
qed

section \<open>Transport: connection failures and the time stamp\<close>

lemma get_retries_at_once:
  "\<exists>self'. request_loop P uri None self k tr (replicate n ConnFail @ net) =
     request_loop P uri None self' (k\<lparr>requests_get_times := requests_get_times k + n\<rparr>)
       (tr @ replicate n (EvGet uri (headers k))) net"
proof (induction n arbitrary: self k tr)
  case 0
  show ?case by (rule exI [of _ self]) simp
next
  case (Suc n)
  have a: "attempt P uri None self k tr ConnFail =
      Continue (if keep_alive self then keep_connection self else self,
                k\<lparr>requests_get_times := requests_get_times k + 1\<rparr>, tr @ [EvGet uri (headers k)])"
    by (simp add: attempt_def)
  from Suc.IH [of "if keep_alive self then keep_connection self else self"
      "k\<lparr>requests_get_times := requests_get_times k + 1\<rparr>" "tr @ [EvGet uri (headers k)]"]
  show ?case
    by (auto simp: a replicate_app_Cons_same)
qed

lemma get_never_gives_up:
  "request_loop P uri None self k tr (replicate n ConnFail) = None"
  by (induction n arbitrary: self k tr) (simp_all add: attempt_def)

lemma after_response_sleeps:
  "after_response P self k tr res = Continue (self', k', tr') \<Longrightarrow>
     http_connection_times k' = http_connection_times k \<and>
     count_list tr' (EvSleep 1) = count_list tr (EvSleep 1)"
  "after_response P self k tr res = Break (r, self', tr') \<Longrightarrow> tr' = tr"
  by (auto simp: after_response_def Let_def split: if_splits option.splits)

lemma attempt_post_sleeps:
  "attempt P uri (Some b) self k tr x = Continue (self', k', tr') \<Longrightarrow>
     http_connection_times k \<le> attempts_to_reconnect \<Longrightarrow>
     http_connection_times k' \<le> attempts_to_reconnect \<and>
     count_list tr' (EvSleep 1) + http_connection_times k =
       count_list tr (EvSleep 1) + http_connection_times k'"
  "attempt P uri (Some b) self k tr x = Break (r, self', tr') \<Longrightarrow>
     count_list tr' (EvSleep 1) = count_list tr (EvSleep 1)"
  by (cases x; auto simp: attempt_def Let_def split: if_splits dest: after_response_sleeps)+

lemma post_sleeps_bounded:
  "request_loop P uri (Some b) self k tr net = Some (r, self', tr', net') \<Longrightarrow>
   http_connection_times k \<le> attempts_to_reconnect \<Longrightarrow>
   count_list tr' (EvSleep 1) + http_connection_times k
     \<le> count_list tr (EvSleep 1) + attempts_to_reconnect"
proof (induction net arbitrary: self k tr)
  case Nil
  then show ?case by simp
next
  case (Cons x net)
  show ?case
  proof (cases "attempt P uri (Some b) self k tr x")
    case (Continue c)
    obtain s1 k1 t1 where c: "c = (s1, k1, t1)" by (cases c)
    from attempt_post_sleeps(1) [OF Continue [unfolded c] Cons.prems(2)]
    have 1: "http_connection_times k1 \<le> attempts_to_reconnect"
      and 2: "count_list t1 (EvSleep 1) + http_connection_times k =
       count_list tr (EvSleep 1) + http_connection_times k1" by auto
    from Cons.prems(1) have "request_loop P uri (Some b) s1 k1 t1 net = Some (r, self', tr', net')"
      by (simp add: Continue c)
    from Cons.IH [OF this 1] 2 show ?thesis by simp
  next
    case (Break c)
    obtain r1 s1 t1 where c: "c = (r1, s1, t1)" by (cases c)
    from Cons.prems(1) have "tr' = t1" by (simp add: Break c)
    with attempt_post_sleeps(2) [OF Break [unfolded c]] Cons.prems(2) show ?thesis by simp
  qed
qed

lemma post_six_failures:
  "send_zkb_request_http P self uri lm (Some b) (replicate 6 ConnFail @ net) =
     Some (Raised ConnectionError,
           (if keep_alive self then keep_connection (self\<lparr>client_last_modified := None\<rparr>)
            else self\<lparr>client_last_modified := None\<rparr>),
           (let req = request_event uri (Some b) (build_headers self lm (Some b))
            in [req, EvSleep 1, req, EvSleep 1, req, EvSleep 1, req, EvSleep 1, req, EvSleep 1,
                req]),
           net)"
  by (simp add: send_zkb_request_http_def attempt_def attempts_to_reconnect_def
      keep_connection_def request_event_def numeral_eq_Suc Let_def)

text \<open>
  Claim C3. The claim: for every request, GET or POST, a connection failure is retried at
  most five times, one time unit apart, and then raised. The code does this for POST only.
  For GET the handler at lines 162-163 catches the connection error inside the GET loop and
  tries again at once: here six connection failures are followed by a seventh attempt, no
  sleep is made, and the request returns the response of the seventh attempt.
\<close>

theorem connection_retry_get_counterexample:
  "send_zkb_request_http (\<lambda>s. s) client0 ''https://zkillboard.com/api/kills/'' None None
     (replicate 6 ConnFail @ [Resp r200]) =
   Some (Returned r200,
         client0\<lparr>client_last_modified := Some ''Wed, 21 Oct 2015 07:28:00 GMT''\<rparr>,
         replicate 7 (EvGet ''https://zkillboard.com/api/kills/'' []), [])"
  by (simp add: transport_defs object_defs r200_def numeral_eq_Suc)

text \<open>
  Claim C3, as the code has it. POST: six connection failures in a row give five retries,
  each after a sleep of 1, and the sixth failure is raised; and whatever the network does,
  a POST request that ends has slept 1 at most five times. GET: after any number \<open>n\<close> of
  connection failures the request has neither returned nor raised, and it goes on from the
  state it started in, with \<open>n\<close> requests sent, no sleep, and only
  \<^verbatim>\<open>requests_get_times\<close> counted up.
\<close>

theorem connection_retry_by_method:
  "send_zkb_request_http P self uri lm (Some b) (replicate 6 ConnFail @ net) =
     Some (Raised ConnectionError,
           (if keep_alive self then keep_connection (self\<lparr>client_last_modified := None\<rparr>)
            else self\<lparr>client_last_modified := None\<rparr>),
           (let req = request_event uri (Some b) (build_headers self lm (Some b))
            in [req, EvSleep 1, req, EvSleep 1, req, EvSleep 1, req, EvSleep 1, req, EvSleep 1,
                req]),
           net)
   \<and> (\<forall>net1 r self' tr net'.
         send_zkb_request_http P self uri lm (Some b) net1 = Some (r, self', tr, net') \<longrightarrow>
         count_list tr (EvSleep 1) \<le> 5)
   \<and> (\<forall>n. send_zkb_request_http P self uri lm None (replicate n ConnFail) = None)
   \<and> (\<forall>n net2. \<exists>self'.
         send_zkb_request_http P self uri lm None (replicate n ConnFail @ net2) =
         request_loop P uri None self'
           \<lparr>headers = build_headers self lm None, http_connection_times = 0,
            proxy_error_times = 0, throttle_error_times = 0, requests_get_times = n\<rparr>
           (replicate n (EvGet uri (build_headers self lm None))) net2)"
proof (intro conjI allI impI)
  show "send_zkb_request_http P self uri lm (Some b) (replicate 6 ConnFail @ net) =
     Some (Raised ConnectionError,
           (if keep_alive self then keep_connection (self\<lparr>client_last_modified := None\<rparr>)
            else self\<lparr>client_last_modified := None\<rparr>),
           (let req = request_event uri (Some b) (build_headers self lm (Some b))
            in [req, EvSleep 1, req, EvSleep 1, req, EvSleep 1, req, EvSleep 1, req, EvSleep 1,
                req]),
           net)"
    by (rule post_six_failures)
next
  fix net1 r self' tr net'
  assume "send_zkb_request_http P self uri lm (Some b) net1 = Some (r, self', tr, net')"
  then have "request_loop P uri (Some b) (self\<lparr>client_last_modified := None\<rparr>)
       \<lparr>headers = build_headers self lm (Some b), http_connection_times = 0,
        proxy_error_times = 0, throttle_error_times = 0, requests_get_times = 0\<rparr>
       [] net1 = Some (r, self', tr, net')"
    by (simp add: send_zkb_request_http_def)
  from post_sleeps_bounded [OF this] show "count_list tr (EvSleep 1) \<le> 5"
    by (simp add: attempts_to_reconnect_def)
next
  fix n
  show "send_zkb_request_http P self uri lm None (replicate n ConnFail) = None"
    by (simp add: send_zkb_request_http_def get_never_gives_up)
next
  fix n net2
  from get_retries_at_once [of P uri "self\<lparr>client_last_modified := None\<rparr>"
      "\<lparr>headers = build_headers self lm None, http_connection_times = 0,
        proxy_error_times = 0, throttle_error_times = 0, requests_get_times = 0\<rparr>" "[]" n net2]
  show "\<exists>self'.
         send_zkb_request_http P self uri lm None (replicate n ConnFail @ net2) =
         request_loop P uri None self'
           \<lparr>headers = build_headers self lm None, http_connection_times = 0,
            proxy_error_times = 0, throttle_error_times = 0, requests_get_times = n\<rparr>
           (replicate n (EvGet uri (build_headers self lm None))) net2"
    by (simp add: send_zkb_request_http_def)
qed

theorem connection_retry_by_method_witness:
  "send_zkb_request_http (\<lambda>s. s) client0 ''https://zkillboard.com/api/kills/'' None
     (Some ''[1]'') (replicate 6 ConnFail @ []) =
   Some (Raised ConnectionError, client0,
     [EvPost ''https://zkillboard.com/api/kills/'' ''[1]'' [(''Content-Type'', ''application/json'')],
      EvSleep 1,
      EvPost ''https://zkillboard.com/api/kills/'' ''[1]'' [(''Content-Type'', ''application/json'')],
      EvSleep 1,
      EvPost ''https://zkillboard.com/api/kills/'' ''[1]'' [(''Content-Type'', ''application/json'')],
      EvSleep 1,
      EvPost ''https://zkillboard.com/api/kills/'' ''[1]'' [(''Content-Type'', ''application/json'')],
      EvSleep 1,
      EvPost ''https://zkillboard.com/api/kills/'' ''[1]'' [(''Content-Type'', ''application/json'')],
      EvSleep 1,
      EvPost ''https://zkillboard.com/api/kills/'' ''[1]'' [(''Content-Type'', ''application/json'')]],
     [])
   \<and> count_list
     [EvPost ''https://zkillboard.com/api/kills/'' ''[1]'' [(''Content-Type'', ''application/json'')],
      EvSleep 1,
      EvPost ''https://zkillboard.com/api/kills/'' ''[1]'' [(''Content-Type'', ''application/json'')],
      EvSleep 1,
      EvPost ''https://zkillboard.com/api/kills/'' ''[1]'' [(''Content-Type'', ''application/json'')],
      EvSleep 1,
      EvPost ''https://zkillboard.com/api/kills/'' ''[1]'' [(''Content-Type'', ''application/json'')],
      EvSleep 1,
      EvPost ''https://zkillboard.com/api/kills/'' ''[1]'' [(''Content-Type'', ''application/json'')],
      EvSleep 1,
      EvPost ''https://zkillboard.com/api/kills/'' ''[1]'' [(''Content-Type'', ''application/json'')]]
     (EvSleep 1) = 5
   \<and> send_zkb_request_http (\<lambda>s. s) client0 ''https://zkillboard.com/api/kills/'' None None
       (replicate 9 ConnFail) = None"
  using connection_retry_by_method [of "\<lambda>s. s" client0 "''https://zkillboard.com/api/kills/''"
      None "''[1]''" "[]"]
  by (simp add: request_event_def build_headers_def object_defs Let_def)

text \<open>
  Claim C2. The claim: a response with a \<^verbatim>\<open>Last-Modified\<close> header always updates the client's
  \<^verbatim>\<open>last_modified\<close>, whatever the logging configuration. The code assigns it inside
  \<^verbatim>\<open>if self.__logger\<close> (lines 194-198): with the logger off, a 200 response carrying the
  header is returned and the client's \<^verbatim>\<open>last_modified\<close> is \<open>None\<close>.
\<close>

theorem last_modified_needs_logger:
  "resp_headers r200 ''Last-Modified'' = Some ''Wed, 21 Oct 2015 07:28:00 GMT''
   \<and> send_zkb_request_http (\<lambda>s. s) (ZKillboardClient False False False None)
       ''https://zkillboard.com/api/kills/'' None None [Resp r200] =
     Some (Returned r200, ZKillboardClient False False False None,
           [EvGet ''https://zkillboard.com/api/kills/'' []], [])
   \<and> client_last_modified (ZKillboardClient False False False None :: string client) = None"
  by (simp add: transport_defs object_defs r200_def)

section \<open>Cache coordinator\<close>

lemma get_zkb_data_online:
  assumes "\<not> offline_mode self"
      and "\<not> trusts_cache self fully_trust_cache (take_cache_from_file self fs url)"
  shows "get_zkb_data P self fs net url body fully_trust_cache =
           online_path P (self\<lparr>is_last_data_updated := False, last_modified := None\<rparr>)
             fs net url body (take_cache_from_file self fs url)"
  using assms by (auto simp: get_zkb_data_def trusts_cache_def Let_def split: option.splits)

lemma get_zkb_data_offline:
  assumes "offline_mode self"
  shows "get_zkb_data P self fs net url body fully_trust_cache =
           offline_path (self\<lparr>is_last_data_updated := False, last_modified := None\<rparr>)
             fs net (take_cache_from_file self fs url)"
  using assms by (simp add: get_zkb_data_def trusts_cache_def Let_def)

lemma take_cache_same_dir:
  "cache_dir other = cache_dir self \<Longrightarrow>
     take_cache_from_file other fs url = take_cache_from_file self fs url"
  by (simp add: take_cache_from_file_def get_f_name_def)

text \<open>
  Claim C1. The claim: when the request raises an \<open>HTTPError\<close> whose status is neither 403
  nor 404, the error reaches the caller and nothing is written. The code writes nothing,
  but the error does not reach the caller: the handler at lines 203-212 has no branch for
  such a status and no \<^verbatim>\<open>raise\<close> after its branches, so \<^verbatim>\<open>get_zkb_data\<close> returns \<^verbatim>\<open>None\<close>. Here
  the server answers 500.
\<close>

theorem unclassified_error_swallowed:
  "send_zkb_request_http (\<lambda>s. s) (client online0) ''https://zkillboard.com/api/kills/'' None None
     [Resp r500] =
     Some (Raised (HTTPError 500), client0, [EvGet ''https://zkillboard.com/api/kills/'' []], [])
   \<and> get_zkb_data (\<lambda>s. s) online0 Map.empty [Resp r500] ''kills/'' None False =
     Some (Return JNull, online0, Map.empty, [EvGet ''https://zkillboard.com/api/kills/'' []], [])"
  by (simp add: coordinator_defs transport_defs f_name_defs object_defs r500_def)

text \<open>
  Claim C4. When an online call reaches the network and the request raises \<open>HTTPError\<close>
  with code 403 or 404, the call raises that error, and the cache file of the url then
  holds \<^verbatim>\<open>{"Http-Error": code}\<close> with the payload \<^verbatim>\<open>null\<close>; and on these files every offline
  call for the url, from any interface on the same cache directory, raises \<open>HTTPError\<close>
  with the same code and leaves the files as they are, so that the next one does the same.
\<close>

theorem sticky_error_persisted:
  assumes online: "\<not> offline_mode self"
      and reaches: "\<not> trusts_cache self fully_trust_cache (take_cache_from_file self fs url)"
      and raised: "send_zkb_request_http P (client self) (server_url self @ url)
                     (case take_cache_from_file self fs url of
                        Some d \<Rightarrow> hdr_last_modified (c_headers d) | None \<Rightarrow> None)
                     body net = Some (Raised (HTTPError code), client', tr, net')"
      and code: "code = 403 \<or> code = 404"
  shows "get_zkb_data P self fs net url body fully_trust_cache =
           Some (Raise (HTTPError code),
                 self\<lparr>is_last_data_updated := False, last_modified := None, client := client'\<rparr>,
                 fs(get_f_name self url \<mapsto>
                      \<lparr>c_headers = http_error_headers code, c_json = JNull\<rparr>),
                 tr, net')
         \<and> (\<forall>other net2 body2 trust2.
               offline_mode other \<and> cache_dir other = cache_dir self \<longrightarrow>
               get_zkb_data P other
                 (fs(get_f_name self url \<mapsto>
                       \<lparr>c_headers = http_error_headers code, c_json = JNull\<rparr>))
                 net2 url body2 trust2 =
               Some (Raise (HTTPError code),
                     other\<lparr>is_last_data_updated := False, last_modified := None\<rparr>,
                     fs(get_f_name self url \<mapsto>
                          \<lparr>c_headers = http_error_headers code, c_json = JNull\<rparr>),
                     [], net2))"
proof (intro conjI allI impI)
  show "get_zkb_data P self fs net url body fully_trust_cache =
           Some (Raise (HTTPError code),
                 self\<lparr>is_last_data_updated := False, last_modified := None, client := client'\<rparr>,
                 fs(get_f_name self url \<mapsto>
                      \<lparr>c_headers = http_error_headers code, c_json = JNull\<rparr>),
                 tr, net')"
    using raised code
    by (auto simp: get_zkb_data_online [OF online reaches] online_path_def on_raised_def
        dump_cache_into_file_def take_cache_from_file_def get_f_name_def Let_def)
next
  fix other :: "'a interface" and net2 body2 trust2
  assume o: "offline_mode other \<and> cache_dir other = cache_dir self"
  then have "get_f_name other url = get_f_name self url" by (simp add: get_f_name_def)
  then show "get_zkb_data P other
                 (fs(get_f_name self url \<mapsto>
                       \<lparr>c_headers = http_error_headers code, c_json = JNull\<rparr>))
                 net2 url body2 trust2 =
               Some (Raise (HTTPError code),
                     other\<lparr>is_last_data_updated := False, last_modified := None\<rparr>,
                     fs(get_f_name self url \<mapsto>
                          \<lparr>c_headers = http_error_headers code, c_json = JNull\<rparr>),
                     [], net2)"
    using o by (simp add: get_zkb_data_offline offline_path_def take_cache_from_file_def
        http_error_headers_def)
qed

theorem sticky_error_persisted_witness:
  "\<not> offline_mode online0
   \<and> \<not> trusts_cache online0 False (take_cache_from_file online0 Map.empty ''kills/'')
   \<and> send_zkb_request_http (\<lambda>s. s) (client online0) (server_url online0 @ ''kills/'') None None
       [Resp r404] =
     Some (Raised (HTTPError 404), client0, [EvGet ''https://zkillboard.com/api/kills/'' []], [])
   \<and> get_zkb_data (\<lambda>s. s) online0 Map.empty [Resp r404] ''kills/'' None False =
     Some (Raise (HTTPError 404), online0, [''.zkb_cache/.cache_kills.json'' \<mapsto> doc404],
           [EvGet ''https://zkillboard.com/api/kills/'' []], [])
   \<and> get_zkb_data (\<lambda>s. s) offline0 [''.zkb_cache/.cache_kills.json'' \<mapsto> doc404] []
       ''kills/'' None False =
     Some (Raise (HTTPError 404), offline0, [''.zkb_cache/.cache_kills.json'' \<mapsto> doc404], [], [])"
proof -
  have a: "\<not> offline_mode online0" by (simp add: object_defs r404_def doc404_def)
  have b: "\<not> trusts_cache online0 False (take_cache_from_file online0 Map.empty ''kills/'')"
    by (simp add: trusts_cache_def)
  have c: "send_zkb_request_http (\<lambda>s. s) (client online0) (server_url online0 @ ''kills/'')
       (case take_cache_from_file online0 Map.empty ''kills/'' of
          Some d \<Rightarrow> hdr_last_modified (c_headers d) | None \<Rightarrow> None)
       None [Resp r404] =
     Some (Raised (HTTPError 404), client0, [EvGet ''https://zkillboard.com/api/kills/'' []], [])"
    by (simp add: transport_defs take_cache_from_file_def object_defs r404_def doc404_def)
  have d: "(404::int) = 403 \<or> (404::int) = 404" by simp
  have e: "take_cache_from_file online0 Map.empty ''kills/'' = None"
    by (simp add: take_cache_from_file_def)
  have f: "offline_mode offline0 \<and> cache_dir offline0 = cache_dir online0"
    by (simp add: object_defs r404_def doc404_def)
  show ?thesis
    using sticky_error_persisted [OF a b c d] a b c e f
    by (simp add: f_name_defs object_defs r404_def doc404_def)
qed

text \<open>
  Claim C7. When an online call reaches the network, a cache file exists for the url and
  the request returns a response with status 304, the call returns the payload of the
  cache file, the files are the same as before, and the reported \<^verbatim>\<open>last_modified\<close> is the
  parsed \<^verbatim>\<open>last-modified\<close> value stored in the file (none when the file stores none).
\<close>

theorem not_modified_keeps_cache:
  assumes online: "\<not> offline_mode self"
      and reaches: "\<not> trusts_cache self fully_trust_cache (take_cache_from_file self fs url)"
      and cached: "take_cache_from_file self fs url = Some d"
      and returned: "send_zkb_request_http P (client self) (server_url self @ url)
                       (hdr_last_modified (c_headers d)) body net =
                     Some (Returned data, client', tr, net')"
      and status: "status_code data = 304"
  shows "get_zkb_data P self fs net url body fully_trust_cache =
           Some (Return (c_json d),
                 self\<lparr>is_last_data_updated := False,
                      last_modified := map_option P (hdr_last_modified (c_headers d)),
                      client := client'\<rparr>,
                 fs, tr, net')"
  using returned status
  by (cases "hdr_last_modified (c_headers d)")
     (simp_all add: get_zkb_data_online [OF online reaches] cached online_path_def on_returned_def Let_def)

theorem not_modified_keeps_cache_witness:
  "\<not> offline_mode online0
   \<and> take_cache_from_file online0 [''.zkb_cache/.cache_kills.json'' \<mapsto> doc200] ''kills/'' =
       Some doc200
   \<and> status_code r304 = 304
   \<and> get_zkb_data (\<lambda>s. s) online0 [''.zkb_cache/.cache_kills.json'' \<mapsto> doc200] [Resp r304]
       ''kills/'' None False =
     Some (Return (JArr [JInt 1]),
           online0\<lparr>last_modified := Some ''Wed, 21 Oct 2015 07:28:00 GMT''\<rparr>,
           [''.zkb_cache/.cache_kills.json'' \<mapsto> doc200],
           [EvGet ''https://zkillboard.com/api/kills/''
              [(''If-Modified-Since'', ''Wed, 21 Oct 2015 07:28:00 GMT'')]],
           [])"
proof -
  let ?fs = "[''.zkb_cache/.cache_kills.json'' \<mapsto> doc200]"
  have a: "\<not> offline_mode online0" by (simp add: object_defs r304_def doc200_def)
  have c: "take_cache_from_file online0 ?fs ''kills/'' = Some doc200"
    by (simp add: take_cache_from_file_def f_name_defs object_defs r304_def doc200_def)
  have b: "\<not> trusts_cache online0 False (take_cache_from_file online0 ?fs ''kills/'')"
    by (simp add: trusts_cache_def)
  have d: "send_zkb_request_http (\<lambda>s. s) (client online0) (server_url online0 @ ''kills/'')
       (hdr_last_modified (c_headers doc200)) None [Resp r304] =
     Some (Returned r304, client0,
           [EvGet ''https://zkillboard.com/api/kills/''
              [(''If-Modified-Since'', ''Wed, 21 Oct 2015 07:28:00 GMT'')]], [])"
    by (simp add: transport_defs object_defs r304_def doc200_def)
  have e: "status_code r304 = 304" by (simp add: r304_def)
  show ?thesis
    using not_modified_keeps_cache [OF a b c d e] a c e
    by (simp add: object_defs r304_def doc200_def)
qed

text \<open>
  Claim C8. In online mode with \<^verbatim>\<open>fully_trust_cache\<close>, when the cache file of the url exists
  and has no \<^verbatim>\<open>Http-Error\<close> in its headers, the call returns the payload of the file at once:
  no event happens, no outcome of the network is consumed, the client and the files are
  as before, and the reported \<^verbatim>\<open>last_modified\<close> is the parsed \<^verbatim>\<open>last-modified\<close> value of the
  file when it has one.
\<close>

theorem trust_cache_no_request:
  assumes online: "\<not> offline_mode self"
      and cached: "take_cache_from_file self fs url = Some d"
      and no_error: "hdr_Http_Error (c_headers d) = None"
  shows "get_zkb_data P self fs net url body True =
           Some (Return (c_json d),
                 self\<lparr>is_last_data_updated := False,
                      last_modified := map_option P (hdr_last_modified (c_headers d))\<rparr>,
                 fs, [], net)"
  using assms
  by (cases "hdr_last_modified (c_headers d)")
     (simp_all add: get_zkb_data_def trusts_cache_def Let_def)


theorem trust_cache_no_request_witness:
  "\<not> offline_mode online0
   \<and> take_cache_from_file online0 [''.zkb_cache/.cache_kills.json'' \<mapsto> doc200] ''kills/'' =
       Some doc200
   \<and> hdr_Http_Error (c_headers doc200) = None
   \<and> get_zkb_data (\<lambda>s. s) online0 [''.zkb_cache/.cache_kills.json'' \<mapsto> doc200] [Resp r500]
       ''kills/'' None True =
     Some (Return (JArr [JInt 1]),
           online0\<lparr>last_modified := Some ''Wed, 21 Oct 2015 07:28:00 GMT''\<rparr>,
           [''.zkb_cache/.cache_kills.json'' \<mapsto> doc200], [], [Resp r500])"
proof -
  let ?fs = "[''.zkb_cache/.cache_kills.json'' \<mapsto> doc200]"
  have a: "\<not> offline_mode online0" by (simp add: object_defs doc200_def)
  have b: "take_cache_from_file online0 ?fs ''kills/'' = Some doc200"
    by (simp add: take_cache_from_file_def f_name_defs object_defs doc200_def)
  have c: "hdr_Http_Error (c_headers doc200) = None" by (simp add: doc200_def)
  show ?thesis
    using trust_cache_no_request [OF a b c, of "\<lambda>s. s" "[Resp r500]" None] a b c
    by (simp add: object_defs doc200_def)
qed

lemma after_response_trace:
  "after_response P self k tr res = Continue (s1, k1, tr1) \<Longrightarrow> \<exists>ev. tr1 = tr @ ev"
  "after_response P self k tr res = Break (r, s1, tr1) \<Longrightarrow> \<exists>ev. tr1 = tr @ ev"
  by (auto simp: after_response_def Let_def split: if_splits option.splits)

lemma attempt_first_event:
  "attempt P uri body self k tr x = Continue (s1, k1, tr1) \<Longrightarrow>
     \<exists>ev. tr1 = tr @ request_event uri body (headers k) # ev"
  "attempt P uri body self k tr x = Break (r, s1, tr1) \<Longrightarrow>
     \<exists>ev. tr1 = tr @ request_event uri body (headers k) # ev"
  by (cases body; cases x;
      auto simp: attempt_def request_event_def Let_def split: if_splits
           dest!: after_response_trace)+

lemma loop_trace_extends:
  "request_loop P uri body self k tr net = Some (r, self', tr', net') \<Longrightarrow>
     (\<exists>ev. tr' = tr @ ev) \<and> length net' \<le> length net"
proof (induction net arbitrary: self k tr)
  case Nil
  then show ?case by simp
next
  case (Cons x net)
  show ?case
  proof (cases "attempt P uri body self k tr x")
    case (Continue c)
    obtain s1 k1 t1 where c: "c = (s1, k1, t1)" by (cases c)
    from attempt_first_event(1) [OF Continue [unfolded c]]
    obtain ev where t1: "t1 = tr @ request_event uri body (headers k) # ev" by blast
    from Cons.prems have "request_loop P uri body s1 k1 t1 net = Some (r, self', tr', net')"
      by (simp add: Continue c)
    from Cons.IH [OF this] t1 show ?thesis by auto
  next
    case (Break c)
    obtain r1 s1 t1 where c: "c = (r1, s1, t1)" by (cases c)
    from attempt_first_event(2) [OF Break [unfolded c]]
    obtain ev where t1: "t1 = tr @ request_event uri body (headers k) # ev" by blast
    from Cons.prems have "tr' = t1" "net' = net" by (simp_all add: Break c)
    with t1 show ?thesis by auto
  qed
qed

lemma send_first_event:
  assumes "send_zkb_request_http P self uri lm body net = Some (r, self', tr, net')"
  shows "(\<exists>ev. tr = request_event uri body (build_headers self lm body) # ev)
         \<and> length net' < length net"
proof (cases net)
  case Nil
  with assms show ?thesis by (simp add: send_zkb_request_http_def)
next
  case (Cons x rest)
  define k0 where "k0 = \<lparr>headers = build_headers self lm body,
        http_connection_times = 0, proxy_error_times = 0,
        throttle_error_times = 0, requests_get_times = 0\<rparr>"
  define s0 where "s0 = self\<lparr>client_last_modified := None\<rparr>"
  have run: "request_loop P uri body s0 k0 [] (x # rest) = Some (r, self', tr, net')"
    using assms by (simp add: send_zkb_request_http_def k0_def s0_def Cons)
  have hk: "headers k0 = build_headers self lm body" by (simp add: k0_def)
  show ?thesis
  proof (cases "attempt P uri body s0 k0 [] x")
    case (Continue c)
    obtain s1 k1 t1 where c: "c = (s1, k1, t1)" by (cases c)
    from attempt_first_event(1) [OF Continue [unfolded c]]
    obtain ev where t1: "t1 = request_event uri body (headers k0) # ev" by auto
    from run have "request_loop P uri body s1 k1 t1 rest = Some (r, self', tr, net')"
      by (simp add: Continue c)
    from loop_trace_extends [OF this] t1 hk Cons show ?thesis by auto
  next
    case (Break c)
    obtain r1 s1 t1 where c: "c = (r1, s1, t1)" by (cases c)
    from attempt_first_event(2) [OF Break [unfolded c]]
    obtain ev where t1: "t1 = request_event uri body (headers k0) # ev" by auto
    from run have "tr = t1" "net' = rest" by (simp_all add: Break c)
    with t1 hk Cons show ?thesis by auto
  qed
qed

lemma online_path_first_event:
  assumes "online_path P self fs net url body cached = Some (r, self', fs', tr, net')"
  shows "(\<exists>ev. tr = request_event (server_url self @ url) body
                   (build_headers (client self)
                      (case cached of Some d \<Rightarrow> hdr_last_modified (c_headers d) | None \<Rightarrow> None)
                      body) # ev)
         \<and> length net' < length net"
  using assms
  by (auto simp: online_path_def Let_def split: option.splits prod.splits t_result.splits
      dest!: send_first_event)

text \<open>
  Claim C10. In online mode with \<^verbatim>\<open>fully_trust_cache\<close>, when the cache file of the url has
  \<^verbatim>\<open>Http-Error\<close> in its headers, the call does what it does without \<^verbatim>\<open>fully_trust_cache\<close>: it
  takes the online path. It sends the request: it does not return while the network has
  given no outcome, and when it returns its first event is the request for the url and at
  least one outcome of the network is consumed.
\<close>

theorem sticky_error_not_trusted:
  assumes online: "\<not> offline_mode self"
      and cached: "take_cache_from_file self fs url = Some d"
      and sticky: "hdr_Http_Error (c_headers d) \<noteq> None"
  shows "get_zkb_data P self fs net url body True = get_zkb_data P self fs net url body False
       \<and> get_zkb_data P self fs net url body True =
           online_path P (self\<lparr>is_last_data_updated := False, last_modified := None\<rparr>)
             fs net url body (Some d)
       \<and> get_zkb_data P self fs [] url body True = None
       \<and> (\<forall>r self' fs' tr net'.
            get_zkb_data P self fs net url body True = Some (r, self', fs', tr, net') \<longrightarrow>
            (\<exists>ev. tr = request_event (server_url self @ url) body
                     (build_headers (client self) (hdr_last_modified (c_headers d)) body) # ev)
            \<and> length net' < length net)"
proof -
  have reaches: "\<not> trusts_cache self t (take_cache_from_file self fs url)" for t
    using sticky by (simp add: trusts_cache_def cached)
  have eq: "get_zkb_data P self fs n url body t =
      online_path P (self\<lparr>is_last_data_updated := False, last_modified := None\<rparr>)
        fs n url body (Some d)" for n t
    using get_zkb_data_online [OF online reaches, of P n body t] by (simp add: cached)
  have none: "online_path P (self\<lparr>is_last_data_updated := False, last_modified := None\<rparr>)
        fs [] url body (Some d) = None"
    by (simp add: online_path_def send_zkb_request_http_def)
  show ?thesis
    using online_path_first_event [of P "self\<lparr>is_last_data_updated := False, last_modified := None\<rparr>"
        fs net url body "Some d"]
    by (simp add: eq none)
qed

theorem sticky_error_not_trusted_witness:
  "\<not> offline_mode online0
   \<and> take_cache_from_file online0 [''.zkb_cache/.cache_kills.json'' \<mapsto> doc404] ''kills/'' =
       Some doc404
   \<and> hdr_Http_Error (c_headers doc404) = Some 404
   \<and> get_zkb_data (\<lambda>s. s) online0 [''.zkb_cache/.cache_kills.json'' \<mapsto> doc404] [Resp r200]
       ''kills/'' None True =
     Some (Return (JArr [JInt 1]),
           online0\<lparr>is_last_data_updated := True,
                   last_modified := Some ''Wed, 21 Oct 2015 07:28:00 GMT'',
                   client := client0\<lparr>client_last_modified :=
                                       Some ''Wed, 21 Oct 2015 07:28:00 GMT''\<rparr>\<rparr>,
           [''.zkb_cache/.cache_kills.json'' \<mapsto> doc200],
           [EvGet ''https://zkillboard.com/api/kills/'' []], [])"
proof -
  let ?fs = "[''.zkb_cache/.cache_kills.json'' \<mapsto> doc404]"
  have a: "\<not> offline_mode online0" by (simp add: object_defs r200_def doc200_def doc404_def)
  have b: "take_cache_from_file online0 ?fs ''kills/'' = Some doc404"
    by (simp add: take_cache_from_file_def f_name_defs object_defs r200_def doc200_def doc404_def)
  have c: "hdr_Http_Error (c_headers doc404) \<noteq> None"
    by (simp add: doc404_def http_error_headers_def)
  have d: "get_zkb_data (\<lambda>s. s) online0 ?fs [Resp r200] ''kills/'' None False =
     Some (Return (JArr [JInt 1]),
           online0\<lparr>is_last_data_updated := True,
                   last_modified := Some ''Wed, 21 Oct 2015 07:28:00 GMT'',
                   client := client0\<lparr>client_last_modified :=
                                       Some ''Wed, 21 Oct 2015 07:28:00 GMT''\<rparr>\<rparr>,
           [''.zkb_cache/.cache_kills.json'' \<mapsto> doc200],
           [EvGet ''https://zkillboard.com/api/kills/'' []], [])"
    by (simp add: coordinator_defs transport_defs f_name_defs object_defs r200_def doc200_def doc404_def)
  show ?thesis
    using sticky_error_not_trusted [OF a b c, of "\<lambda>s. s" "[Resp r200]" None] a b d
    by (simp add: doc404_def http_error_headers_def)
qed

text \<open>
  Claim C5. The claim: after every call that returns a document, the reported
  \<^verbatim>\<open>last_modified\<close> is the time stamp of that document, the stored one when the document
  comes from the cache, offline included. The online paths that answer from the cache
  (lines 164-166 and 194-196) set it from the stored \<^verbatim>\<open>last-modified\<close>; the offline path
  (line 177) does not. Here an online call stores a document with its time stamp and
  reports it, and an offline call on the same files returns the same document and
  reports no time stamp.
\<close>

theorem offline_last_modified_missing:
  "get_zkb_data (\<lambda>s. s) online0 Map.empty [Resp r200] ''kills/'' None False =
     Some (Return (JArr [JInt 1]),
           online0\<lparr>is_last_data_updated := True,
                   last_modified := Some ''Wed, 21 Oct 2015 07:28:00 GMT'',
                   client := client0\<lparr>client_last_modified := Some ''Wed, 21 Oct 2015 07:28:00 GMT''\<rparr>\<rparr>,
           [''.zkb_cache/.cache_kills.json'' \<mapsto> doc200],
           [EvGet ''https://zkillboard.com/api/kills/'' []], [])
   \<and> hdr_last_modified (c_headers doc200) = Some ''Wed, 21 Oct 2015 07:28:00 GMT''
   \<and> get_zkb_data (\<lambda>s. s) offline0 [''.zkb_cache/.cache_kills.json'' \<mapsto> doc200] [] ''kills/'' None False =
     Some (Return (JArr [JInt 1]), offline0, [''.zkb_cache/.cache_kills.json'' \<mapsto> doc200], [], [])
   \<and> last_modified offline0 = None"
  by (simp add: coordinator_defs transport_defs f_name_defs object_defs r200_def doc200_def)

section \<open>Cache file names\<close>

lemma strip_slash_append:
  "\<not> (url \<noteq> [] \<and> last url = CHR ''/'') \<Longrightarrow> strip_slash (url @ ''/'') = strip_slash url"
  by (auto simp: strip_slash_def)

lemma get_f_name_append:
  "\<not> (url \<noteq> [] \<and> last url = CHR ''/'') \<Longrightarrow> get_f_name self (url @ ''/'') = get_f_name self url"
  by (simp add: get_f_name_def strip_slash_append del: append.simps)

text \<open>
  Claim C9. The claim: a path and the same path with one trailing slash removed always
  have the same file name. \<^verbatim>\<open>__get_f_name\<close> removes one trailing slash only (lines 81-82), so
  a path ending in two slashes keeps one, which becomes an underscore.
\<close>

theorem key_normalization_counterexample:
  "get_f_name online0 ''/characterID/1//'' = ''.zkb_cache/.cache__characterID_1_.json''
   \<and> get_f_name online0 ''/characterID/1/'' = ''.zkb_cache/.cache__characterID_1.json''
   \<and> get_f_name online0 ''/characterID/1//'' \<noteq> get_f_name online0 ''/characterID/1/''"
  by (simp add: f_name_defs object_defs)

text \<open>
  Claim C9, as the code has it. The file name is a function of the cache directory and
  the path; \<^verbatim>\<open>/corporationID/787611831/\<close> and \<^verbatim>\<open>/corporationID/787611831\<close> have the same file
  name; and for every path that does not end in a slash, the path and the path followed
  by one slash have the same file name, so that a document written under one of them is
  the document read under the other.
\<close>

theorem key_normalization:
  "get_f_name self ''/corporationID/787611831/'' = get_f_name self ''/corporationID/787611831''
   \<and> (\<not> (url \<noteq> [] \<and> last url = CHR ''/'') \<longrightarrow>
        get_f_name self (url @ ''/'') = get_f_name self url
      \<and> take_cache_from_file self (dump_cache_into_file self fs url h j) (url @ ''/'') =
          Some \<lparr>c_headers = h, c_json = j\<rparr>
      \<and> take_cache_from_file self (dump_cache_into_file self fs (url @ ''/'') h j) url =
          Some \<lparr>c_headers = h, c_json = j\<rparr>
      \<and> take_cache_from_file self fs (url @ ''/'') = take_cache_from_file self fs url)"
proof -
  have "\<not> (''/corporationID/787611831'' \<noteq> [] \<and> last ''/corporationID/787611831'' = CHR ''/'')"
    by simp
  from get_f_name_append [OF this, of self]
  have "get_f_name self ''/corporationID/787611831/'' = get_f_name self ''/corporationID/787611831''"
    by simp
  then show ?thesis
    by (simp add: get_f_name_append take_cache_from_file_def dump_cache_into_file_def)
qed

theorem key_normalization_witness:
  "\<not> (''/characterID/1'' \<noteq> [] \<and> last ''/characterID/1'' = CHR ''/'')
   \<and> get_f_name online0 (''/characterID/1'' @ ''/'') = ''.zkb_cache/.cache__characterID_1.json''
   \<and> get_f_name online0 ''/characterID/1'' = ''.zkb_cache/.cache__characterID_1.json''
   \<and> take_cache_from_file online0
        (dump_cache_into_file online0 Map.empty ''/characterID/1'' (c_headers doc200) (c_json doc200))
        (''/characterID/1'' @ ''/'') = Some doc200"
  using key_normalization [of online0 "''/characterID/1''" Map.empty "c_headers doc200" "c_json doc200"]
  by (simp add: f_name_defs object_defs doc200_def)

end
